theory Spec2Isabelle
  imports Main
begin

section \<open>Go values used by the adapter layer\<close>

subsection \<open>Errors\<close>

text \<open>
  A Go \<^verbatim>\<open>error\<close> value is one of: the two sentinels of package \<^verbatim>\<open>context\<close>, an error
  made by \<^verbatim>\<open>errors.New\<close> (its text), or an error made by \<^verbatim>\<open>fmt.Errorf\<close> with the verb
  \<^verbatim>\<open>%w\<close> (the text before the wrapped error, and the wrapped error). A nil error is
  \<open>None\<close> of type \<open>go_error option\<close>.
\<close>

datatype go_error =
    Canceled
  | DeadlineExceeded
  | ErrorString string
  | WrapError string go_error

text \<open>
  \<^verbatim>\<open>errors.Is(err, target)\<close>: \<^verbatim>\<open>err\<close> or an error it wraps, at any depth, is the target.
  Error types with an \<^verbatim>\<open>Is\<close> method of their own are not modelled.
\<close>

fun errors_Is :: "go_error \<Rightarrow> go_error \<Rightarrow> bool" where
  "errors_Is (WrapError msg inner) target =
     (WrapError msg inner = target \<or> errors_Is inner target)"
| "errors_Is err target = (err = target)"

subsection \<open>Contexts\<close>

text \<open>
  A \<^verbatim>\<open>context.Context\<close> is described by when, if ever, its \<^verbatim>\<open>Done\<close> channel closes and
  why. Instants are natural numbers. A context never leaves the done state.
\<close>

datatype Context =
    NeverDone
  | CanceledAt nat
  | ExpiredAt nat

text \<open>\<^verbatim>\<open>ctx.Err()\<close> read at instant \<open>t\<close>: nil while the context is active.\<close>

fun ctx_Err :: "Context \<Rightarrow> nat \<Rightarrow> go_error option" where
  "ctx_Err NeverDone t = None"
| "ctx_Err (CanceledAt d) t = (if d \<le> t then Some Canceled else None)"
| "ctx_Err (ExpiredAt d) t = (if d \<le> t then Some DeadlineExceeded else None)"

text \<open>The instant at which \<^verbatim>\<open><-ctx.Done()\<close> unblocks, if it ever does.\<close>

fun ctx_Done :: "Context \<Rightarrow> nat option" where
  "ctx_Done NeverDone = None"
| "ctx_Done (CanceledAt d) = Some d"
| "ctx_Done (ExpiredAt d) = Some d"

text \<open>
  A blocking call \<^verbatim>\<open>Run(ctx) error\<close> started at instant \<open>t0\<close> either never returns
  (\<open>None\<close>) or returns at some instant with an error or nil.
\<close>

type_synonym run_result = "(nat \<times> go_error option) option"

type_synonym run_func = "Context \<Rightarrow> nat \<Rightarrow> run_result"


subsection \<open>HTTP handlers, scrape configs, loggers\<close>

text \<open>
  An \<^verbatim>\<open>http.Handler\<close> is what it answers: the status code for a request path.
  \<^verbatim>\<open>http.NotFoundHandler()\<close> is the standard library's handler that answers every request
  with status 404.
\<close>

datatype http_Handler = Handler (ServeHTTP: "string \<Rightarrow> nat")

definition NotFoundHandler :: http_Handler where
  "NotFoundHandler = Handler (\<lambda>req. 404)"

datatype Logger = Logger string

text \<open>
  The legacy scrape config, a pair of job name and relative metrics path, and the target
  built from it. A \<^verbatim>\<open>model.LabelSet\<close> is a map from label names to label values;
  \<^verbatim>\<open>model.JobLabel\<close> is the label name \<^verbatim>\<open>job\<close>.
\<close>

record ScrapeConfig =
  JobName :: string
  MetricsPath :: string

record handlerTarget =
  MetricsPath :: string
  Labels :: "string \<rightharpoonup> string"

definition JobLabel :: string where
  "JobLabel = ''job''"

subsection \<open>Common settings and the global context\<close>

text \<open>
  \<^verbatim>\<open>common.MetricsConfig\<close>: the instance key is a \<^verbatim>\<open>*string\<close>, nil when the user gave
  none. The autoscrape setting is an optional cadence, absent when the user did not
  override the global one.
\<close>

record MetricsConfig =
  Autoscrape_cadence :: "nat option"
  InstanceKey :: "string option"

record Globals =
  Autoscrape :: nat
  AgentIdentifier :: string

text \<open>
  Modelled from the spec: the method \<^verbatim>\<open>ApplyDefaults\<close> of \<^verbatim>\<open>common.MetricsConfig\<close>,
  whose package is not among the sources. It "applies global autoscrape defaults into
  the Common Settings (only where the user did not override them ...; explicit user values
  always take precedence over global defaults)", and it is given the autoscrape
  defaults only, so it leaves the instance key alone.
\<close>

definition MetricsConfig_ApplyDefaults :: "nat \<Rightarrow> MetricsConfig \<Rightarrow> MetricsConfig" where
  "MetricsConfig_ApplyDefaults g mc =
     (case Autoscrape_cadence mc of
        None \<Rightarrow> mc\<lparr>Autoscrape_cadence := Some g\<rparr>
      | Some a \<Rightarrow> mc)"

section \<open>The legacy capability and its configuration\<close>

text \<open>
  \<^verbatim>\<open>shared.Integration\<close>, the legacy capability, by the three methods the adapter calls.
  \<^verbatim>\<open>MetricsHandler()\<close> returns a pair of a handler and an error, either of which may be
  nil; \<^verbatim>\<open>ScrapeConfigs()\<close> returns a slice, \<open>None\<close> for the nil slice.
\<close>

record v1_Integration =
  MetricsHandler :: "http_Handler option \<times> go_error option"
  ScrapeConfigs :: "ScrapeConfig list option"
  Run :: run_func

text \<open>
  The embedded legacy config of an exporter (\<^verbatim>\<open>cadvisor.Config\<close> and the like), by the
  methods the wrapper promotes from it and the values of its own fields, which this
  layer never reads. A constructor or an identifier function returns either an error or
  a result.
\<close>

record v1_Config =
  settings :: "(string \<times> string) list"
  Name :: string
  InstanceKey :: "string \<Rightarrow> go_error + string"
  NewIntegration :: "Logger \<Rightarrow> go_error + v1_Integration"

text \<open>
  What a type assertion needs to know of the legacy config's Go type \<^verbatim>\<open>T\<close>: the name that
  \<^verbatim>\<open>%T\<close> prints, and whether the type declares the custom deserialization rule
  \<^verbatim>\<open>UnmarshalYAML\<close> and with which receiver. A rule declared as
  \<^verbatim>\<open>func (c T) UnmarshalYAML\<close> is in the method set of \<^verbatim>\<open>T\<close> and of \<^verbatim>\<open>*T\<close>; a rule declared
  as \<^verbatim>\<open>func (c *T) UnmarshalYAML\<close> is in the method set of \<^verbatim>\<open>*T\<close> only.
\<close>

datatype receiver = ValueReceiver | PointerReceiver

record go_type =
  typeName :: string
  unmarshalYAML :: "receiver option"

text \<open>
  The fifteen wrapped exporter types are generated from one template: a struct of the
  embedded legacy config and the common settings. \<open>kind\<close> names the Go type.
\<close>

datatype kind =
    K_Cadvisor
  | K_ConsulExporter
  | K_DnsmasqExporter
  | K_ElasticsearchExporter
  | K_GithubExporter
  | K_KafkaExporter
  | K_MemcachedExporter
  | K_MongodbExporter
  | K_MysqldExporter
  | K_NodeExporter
  | K_PostgresExporter
  | K_ProcessExporter
  | K_RedisExporter
  | K_StatsdExporter
  | K_WindowsExporter

record Exporter =
  Config :: v1_Config
  Cmn :: MetricsConfig

text \<open>\<^verbatim>\<open>Agent\<close> embeds \<^verbatim>\<open>agent.Config\<close>, which carries its own common settings.\<close>

record Agent =
  Common :: MetricsConfig

section \<open>The custom-unmarshal guard\<close>

text \<open>
  \<^verbatim>\<open>implementsMarshaller(i)\<close> looks only at the dynamic type of \<^verbatim>\<open>i\<close>. Every caller passes
  \<^verbatim>\<open>c.Config\<close>, the embedded struct itself and not a pointer to it, so the dynamic type is
  the legacy type \<^verbatim>\<open>T\<close> and the assertion \<^verbatim>\<open>i.(yaml.Unmarshaler)\<close> holds exactly when
  \<^verbatim>\<open>UnmarshalYAML\<close> is in the method set of \<^verbatim>\<open>T\<close>: when it is declared with a value
  receiver.
\<close>

definition implementsMarshaller :: "go_type \<Rightarrow> go_error option" where
  "implementsMarshaller T =
     (if unmarshalYAML T = Some ValueReceiver
      then Some (ErrorString (typeName T @ '' cannot implement custom unmarshaler''))
      else None)"

text \<open>
  Every generated \<^verbatim>\<open>UnmarshalYAML\<close> but those of \<^verbatim>\<open>MongodbExporter\<close> and
  \<^verbatim>\<open>PostgresExporter\<close> starts by assigning the package's \<^verbatim>\<open>DefaultConfig\<close>.
\<close>

fun assignsDefaultConfig :: "kind \<Rightarrow> bool" where
  "assignsDefaultConfig K_MongodbExporter = False"
| "assignsDefaultConfig K_PostgresExporter = False"
| "assignsDefaultConfig k = True"

text \<open>
  \<^verbatim>\<open>(c *K) UnmarshalYAML(unmarshal)\<close> for a wrapped kind \<open>k\<close>. The legacy packages are not
  among the sources, so the Go type of each legacy config (\<open>legacyType\<close>) and each
  package's \<^verbatim>\<open>DefaultConfig\<close> are parameters. \<open>unmarshal\<close> is the decoder's callback: it
  fills the receiver from the document or fails. The result is the returned error and
  the receiver as the call leaves it.
\<close>

definition UnmarshalYAML ::
  "(kind \<Rightarrow> go_type) \<Rightarrow> (kind \<Rightarrow> v1_Config) \<Rightarrow> kind
     \<Rightarrow> (Exporter \<Rightarrow> go_error option \<times> Exporter) \<Rightarrow> Exporter
     \<Rightarrow> go_error option \<times> Exporter" where
  "UnmarshalYAML legacyType DefaultConfig k unmarshal c =
     (let c1 = (if assignsDefaultConfig k then c\<lparr>Config := DefaultConfig k\<rparr> else c)
      in case implementsMarshaller (legacyType k) of
           Some err \<Rightarrow> (Some err, c1)
         | None \<Rightarrow> unmarshal c1)"

section \<open>The config wrapper\<close>

text \<open>
  \<open>cfg\<close> is the wrapped exporter with its Go type; the two function fields are the method
  values \<^verbatim>\<open>InstanceKey\<close> and \<^verbatim>\<open>NewIntegration\<close> of the exporter. Both are functions of
  their argument alone: a second call with the same argument gives the same result.
\<close>

record configWrapper =
  cfg :: "kind \<times> Exporter"
  cmn :: MetricsConfig
  configInstanceFunc :: "string \<Rightarrow> go_error + string"
  newInstanceFunc :: "Logger \<Rightarrow> go_error + v1_Integration"

definition newConfigWrapper ::
  "kind \<times> Exporter \<Rightarrow> MetricsConfig \<Rightarrow> (Logger \<Rightarrow> go_error + v1_Integration)
     \<Rightarrow> (string \<Rightarrow> go_error + string) \<Rightarrow> configWrapper" where
  "newConfigWrapper c m ni ci =
     \<lparr>cfg = c, cmn = m, configInstanceFunc = ci, newInstanceFunc = ni\<rparr>"

definition Identifier :: "configWrapper \<Rightarrow> Globals \<Rightarrow> go_error + string" where
  "Identifier c globals =
     (case MetricsConfig.InstanceKey (cmn c) of
        Some key \<Rightarrow> Inr key
      | None \<Rightarrow> configInstanceFunc c (AgentIdentifier globals))"

text \<open>
  \<^verbatim>\<open>ApplyDefaults\<close> changes the receiver: the result is the returned error and the wrapper
  as the call leaves it.
\<close>

definition ApplyDefaults :: "configWrapper \<Rightarrow> Globals \<Rightarrow> go_error option \<times> configWrapper" where
  "ApplyDefaults c globals =
     (let c1 = c\<lparr>cmn := MetricsConfig_ApplyDefaults (Autoscrape globals) (cmn c)\<rparr>
      in case Identifier c1 globals of
           Inr ident \<Rightarrow> (None, c1\<lparr>cmn := (cmn c1)\<lparr>MetricsConfig.InstanceKey := Some ident\<rparr>\<rparr>)
         | Inl err \<Rightarrow> (None, c1))"

definition configWrapper_Name :: "configWrapper \<Rightarrow> string" where
  "configWrapper_Name c = Name (Config (snd (cfg c)))"

section \<open>Building the runtime integration\<close>

record metricsHandlerIntegration =
  integrationName :: string
  instanceID :: string
  common :: MetricsConfig
  globals :: Globals
  handler :: "http_Handler option"
  targets :: "handlerTarget list option"
  runFunc :: run_func

text \<open>
  The loop over \<^verbatim>\<open>v1ScrapeConfigs\<close>: one target is appended for each scrape config.
\<close>

fun appendTargets :: "ScrapeConfig list \<Rightarrow> handlerTarget list \<Rightarrow> handlerTarget list" where
  "appendTargets [] ts = ts"
| "appendTargets (sc # rest) ts =
     appendTargets rest
       (ts @ [\<lparr>MetricsPath = ScrapeConfig.MetricsPath sc,
               Labels = [JobLabel \<mapsto> ''integrations/'' @ JobName sc]\<rparr>])"

text \<open>
  The closure \<^verbatim>\<open>runFunc\<close> over the legacy \<^verbatim>\<open>Run\<close>: the legacy call is made once, and when
  it returns, its error and \<^verbatim>\<open>ctx.Err()\<close> at that instant decide the result. Where the
  legacy call never returns, neither does the closure.
\<close>

definition newIntegrationFromV1_runFunc :: "run_func \<Rightarrow> run_func" where
  "newIntegrationFromV1_runFunc v1Run ctx t0 =
     (case v1Run ctx t0 of
        None \<Rightarrow> None
      | Some (t1, err) \<Rightarrow>
          Some (t1,
            (case err of
               None \<Rightarrow> None
             | Some e \<Rightarrow>
                 if errors_Is e Canceled \<and> ctx_Err ctx t1 \<noteq> None then None
                 else Some e)))"

text \<open>
  \<^verbatim>\<open>newIntegrationFromV1\<close> returns a pair of an integration and an error, as the Go
  function does. A nil slice has length 0 and ranges over nothing;
  \<^verbatim>\<open>make([]handlerTarget, 0, n)\<close> is an empty slice that is not nil.
\<close>

definition newIntegrationFromV1 ::
  "configWrapper \<Rightarrow> Logger \<Rightarrow> Globals \<Rightarrow> (Logger \<Rightarrow> go_error + v1_Integration)
     \<Rightarrow> metricsHandlerIntegration option \<times> go_error option" where
  "newIntegrationFromV1 c logger glb newInt =
     (case newInt logger of
        Inl err \<Rightarrow> (None, Some err)
      | Inr v1Integration \<Rightarrow>
          (case Identifier c glb of
             Inl err \<Rightarrow> (None, Some err)
           | Inr ident \<Rightarrow>
               (case MetricsHandler v1Integration of
                  (h, Some err) \<Rightarrow> (None, Some (WrapError ''generating http handler: '' err))
                | (h, None) \<Rightarrow>
                    (let h1 = (case h of None \<Rightarrow> NotFoundHandler | Some h0 \<Rightarrow> h0);
                         v1ScrapeConfigs =
                           (case ScrapeConfigs v1Integration of None \<Rightarrow> [] | Some scs \<Rightarrow> scs);
                         ts = appendTargets v1ScrapeConfigs []
                     in (Some \<lparr>integrationName = configWrapper_Name c,
                               instanceID = ident,
                               common = cmn c,
                               globals = glb,
                               handler = Some h1,
                               targets = Some ts,
                               runFunc = newIntegrationFromV1_runFunc (Run v1Integration)\<rparr>,
                         None)))))"

definition configWrapper_NewIntegration ::
  "configWrapper \<Rightarrow> Logger \<Rightarrow> Globals \<Rightarrow> metricsHandlerIntegration option \<times> go_error option" where
  "configWrapper_NewIntegration c logger glb =
     newIntegrationFromV1 c logger glb (newInstanceFunc c)"

section \<open>The windows\_exporter integration on other platforms\<close>

text \<open>
  \<^verbatim>\<open>Run\<close> waits for \<^verbatim>\<open><-ctx.Done()\<close> and returns \<^verbatim>\<open>ctx.Err()\<close>: called at \<open>t0\<close> it returns
  when the context is done, at once if it is done already, and never if the context is
  never done.
\<close>

definition windows_exporter_Run :: run_func where
  "windows_exporter_Run ctx t0 =
     (case ctx_Done ctx of
        None \<Rightarrow> None
      | Some d \<Rightarrow> (let t1 = max t0 d in Some (t1, ctx_Err ctx t1)))"

section \<open>The composition registry\<close>

text \<open>
  A \<^verbatim>\<open>Config\<close> held by the registry is the agent's own config, a config wrapper, or some
  other implementation of the interface (only \<^verbatim>\<open>TestConfigs\<close> can hold those).
\<close>

datatype Config =
    AgentConfig Agent
  | WrapperConfig configWrapper
  | OtherConfig string

text \<open>
  A singular slot is a pointer, nil when the exporter is not configured. A repeated slot
  is a slice of pointers, and a slice of pointers can hold nil.
\<close>

record Integrations =
  Agent :: "Agent option"
  Cadvisor :: "Exporter option"
  ConsulExporterConfigs :: "Exporter option list"
  DnsmasqExporterConfigs :: "Exporter option list"
  ElasticsearchExporterConfigs :: "Exporter option list"
  GithubExporterConfigs :: "Exporter option list"
  KafkaExporterConfigs :: "Exporter option list"
  MemcachedExporterConfigs :: "Exporter option list"
  MongodbExporterConfigs :: "Exporter option list"
  MysqldExporterConfigs :: "Exporter option list"
  NodeExporter :: "Exporter option"
  PostgresExporterConfigs :: "Exporter option list"
  ProcessExporter :: "Exporter option"
  RedisExporterConfigs :: "Exporter option list"
  StatsdExporter :: "Exporter option"
  WindowsExporter :: "Exporter option"
  TestConfigs :: "Config list"

text \<open>
  \<^verbatim>\<open>newConfigWrapper(i, i.Cmn, i.NewIntegration, i.InstanceKey)\<close> for an exporter \<open>i\<close> of
  kind \<open>k\<close>, as a \<^verbatim>\<open>Config\<close>.
\<close>

definition wrapped :: "kind \<Rightarrow> Exporter \<Rightarrow> Config" where
  "wrapped k i =
     WrapperConfig
       (newConfigWrapper (k, i) (Cmn i) (NewIntegration (Config i))
          (v1_Config.InstanceKey (Config i)))"

text \<open>Reading a field through a nil pointer panics.\<close>

datatype panic = NilPointerDereference

definition andThen :: "panic + 'a \<Rightarrow> ('a \<Rightarrow> panic + 'b) \<Rightarrow> panic + 'b" where
  "andThen r f = (case r of Inl p \<Rightarrow> Inl p | Inr a \<Rightarrow> f a)"

text \<open>The guarded append of a singular slot.\<close>

definition appendIfSet :: "kind \<Rightarrow> Exporter option \<Rightarrow> Config list \<Rightarrow> Config list" where
  "appendIfSet k slot activeConfigs =
     (case slot of
        None \<Rightarrow> activeConfigs
      | Some e \<Rightarrow> activeConfigs @ [wrapped k e])"

text \<open>
  The loop over a repeated slot. It has no guard: \<^verbatim>\<open>i.Cmn\<close> is read for every element.
\<close>

fun appendEach :: "kind \<Rightarrow> Exporter option list \<Rightarrow> Config list \<Rightarrow> panic + Config list" where
  "appendEach k [] activeConfigs = Inr activeConfigs"
| "appendEach k (None # rest) activeConfigs = Inl NilPointerDereference"
| "appendEach k (Some i # rest) activeConfigs =
     appendEach k rest (activeConfigs @ [wrapped k i])"

text \<open>The loop over \<^verbatim>\<open>TestConfigs\<close>.\<close>

fun appendConfigs :: "Config list \<Rightarrow> Config list \<Rightarrow> Config list" where
  "appendConfigs [] activeConfigs = activeConfigs"
| "appendConfigs (i # rest) activeConfigs = appendConfigs rest (activeConfigs @ [i])"

definition ActiveConfigs :: "Integrations \<Rightarrow> panic + Config list" where
  "ActiveConfigs v =
     (let a0 = [];
          a1 = (case Agent v of None \<Rightarrow> a0 | Some a \<Rightarrow> a0 @ [AgentConfig a]);
          a2 = appendIfSet K_Cadvisor (Cadvisor v) a1
      in andThen (appendEach K_ConsulExporter (ConsulExporterConfigs v) a2) (\<lambda>a3.
         andThen (appendEach K_DnsmasqExporter (DnsmasqExporterConfigs v) a3) (\<lambda>a4.
         andThen (appendEach K_ElasticsearchExporter (ElasticsearchExporterConfigs v) a4) (\<lambda>a5.
         andThen (appendEach K_GithubExporter (GithubExporterConfigs v) a5) (\<lambda>a6.
         andThen (appendEach K_KafkaExporter (KafkaExporterConfigs v) a6) (\<lambda>a7.
         andThen (appendEach K_MemcachedExporter (MemcachedExporterConfigs v) a7) (\<lambda>a8.
         andThen (appendEach K_MongodbExporter (MongodbExporterConfigs v) a8) (\<lambda>a9.
         andThen (appendEach K_MysqldExporter (MysqldExporterConfigs v) a9) (\<lambda>a10.
         andThen (appendEach K_PostgresExporter (PostgresExporterConfigs v)
                    (appendIfSet K_NodeExporter (NodeExporter v) a10)) (\<lambda>a12.
         andThen (appendEach K_RedisExporter (RedisExporterConfigs v)
                    (appendIfSet K_ProcessExporter (ProcessExporter v) a12)) (\<lambda>a14.
         Inr (appendConfigs (TestConfigs v)
                (appendIfSet K_WindowsExporter (WindowsExporter v)
                   (appendIfSet K_StatsdExporter (StatsdExporter v) a14))))))))))))))"

subsection \<open>The activation rule in the specification's words\<close>

text \<open>
  The slots of the wrapped kinds in the fixed priority order, each singular or repeated.
\<close>

datatype slot = Singular "Exporter option" | Repeated "Exporter option list"

definition slotsByPriority :: "Integrations \<Rightarrow> (kind \<times> slot) list" where
  "slotsByPriority v =
     [(K_Cadvisor, Singular (Cadvisor v)),
      (K_ConsulExporter, Repeated (ConsulExporterConfigs v)),
      (K_DnsmasqExporter, Repeated (DnsmasqExporterConfigs v)),
      (K_ElasticsearchExporter, Repeated (ElasticsearchExporterConfigs v)),
      (K_GithubExporter, Repeated (GithubExporterConfigs v)),
      (K_KafkaExporter, Repeated (KafkaExporterConfigs v)),
      (K_MemcachedExporter, Repeated (MemcachedExporterConfigs v)),
      (K_MongodbExporter, Repeated (MongodbExporterConfigs v)),
      (K_MysqldExporter, Repeated (MysqldExporterConfigs v)),
      (K_NodeExporter, Singular (NodeExporter v)),
      (K_PostgresExporter, Repeated (PostgresExporterConfigs v)),
      (K_ProcessExporter, Singular (ProcessExporter v)),
      (K_RedisExporter, Repeated (RedisExporterConfigs v)),
      (K_StatsdExporter, Singular (StatsdExporter v)),
      (K_WindowsExporter, Singular (WindowsExporter v))]"

text \<open>
  A singular slot contributes one config if and only if it is set; a repeated slot
  contributes one config for each element, in the order of the list.
\<close>

fun contribution :: "kind \<times> slot \<Rightarrow> Config list" where
  "contribution (k, Singular None) = []"
| "contribution (k, Singular (Some e)) = [wrapped k e]"
| "contribution (k, Repeated es) = map (\<lambda>e. wrapped k (the e)) es"

fun slotSize :: "kind \<times> slot \<Rightarrow> nat" where
  "slotSize (k, Singular None) = 0"
| "slotSize (k, Singular (Some e)) = 1"
| "slotSize (k, Repeated es) = length es"

definition expectedConfigs :: "Integrations \<Rightarrow> Config list" where
  "expectedConfigs v =
     (case Agent v of None \<Rightarrow> [] | Some a \<Rightarrow> [AgentConfig a])
       @ concat (map contribution (slotsByPriority v))
       @ TestConfigs v"

fun noNil :: "kind \<times> slot \<Rightarrow> bool" where
  "noNil (k, Singular s) = True"
| "noNil (k, Repeated es) = list_all (\<lambda>e. e \<noteq> None) es"

definition noNilElements :: "Integrations \<Rightarrow> bool" where
  "noNilElements v = list_all noNil (slotsByPriority v)"

text \<open>The kind of a wrapper, read back from a config of the result.\<close>

fun kindOf :: "Config \<Rightarrow> kind option" where
  "kindOf (WrapperConfig w) = Some (fst (cfg w))"
| "kindOf c = None"

section \<open>Example values\<close>

text \<open>
  A legacy capability with no handler and one scrape config, legacy configs and wrappers
  around it, and registries, used to evaluate the definitions on concrete inputs.
\<close>

definition exampleIntegration :: v1_Integration where
  "exampleIntegration =
     \<lparr>MetricsHandler = (None, None),
      ScrapeConfigs = Some [\<lparr>JobName = ''node_exporter'', MetricsPath = ''/metrics''\<rparr>],
      Run = windows_exporter_Run\<rparr>"

definition exampleLegacyConfig :: "string \<Rightarrow> (string \<Rightarrow> go_error + string) \<Rightarrow> v1_Config" where
  "exampleLegacyConfig nm ik =
     \<lparr>settings = [], Name = nm, InstanceKey = ik,
      NewIntegration = (\<lambda>l. Inr exampleIntegration)\<rparr>"

definition exampleExporter :: "string \<Rightarrow> string option \<Rightarrow> Exporter" where
  "exampleExporter nm key =
     \<lparr>Config = exampleLegacyConfig nm Inr,
      Cmn = \<lparr>Autoscrape_cadence = None, InstanceKey = key\<rparr>\<rparr>"

definition exampleGlobals :: Globals where
  "exampleGlobals = \<lparr>Autoscrape = 60, AgentIdentifier = ''agent-1''\<rparr>"

definition exampleWrapper :: "string option \<Rightarrow> (string \<Rightarrow> go_error + string) \<Rightarrow> configWrapper" where
  "exampleWrapper key ik =
     newConfigWrapper
       (K_NodeExporter,
        \<lparr>Config = exampleLegacyConfig ''node_exporter'' ik,
         Cmn = \<lparr>Autoscrape_cadence = None, InstanceKey = key\<rparr>\<rparr>)
       \<lparr>Autoscrape_cadence = None, InstanceKey = key\<rparr>
       (\<lambda>l. Inr exampleIntegration)
       ik"

definition noHostname :: "string \<Rightarrow> go_error + string" where
  "noHostname agentKey = Inl (ErrorString ''cannot determine hostname'')"

definition noIntegrations :: Integrations where
  "noIntegrations =
     \<lparr>Agent = None, Cadvisor = None, ConsulExporterConfigs = [],
      DnsmasqExporterConfigs = [], ElasticsearchExporterConfigs = [],
      GithubExporterConfigs = [], KafkaExporterConfigs = [], MemcachedExporterConfigs = [],
      MongodbExporterConfigs = [], MysqldExporterConfigs = [], NodeExporter = None,
      PostgresExporterConfigs = [], ProcessExporter = None, RedisExporterConfigs = [],
      StatsdExporter = None, WindowsExporter = None, TestConfigs = []\<rparr>"

definition threeConfigs :: Integrations where
  "threeConfigs =
     noIntegrations
       \<lparr>NodeExporter := Some (exampleExporter ''node_exporter'' None),
        RedisExporterConfigs :=
          [Some (exampleExporter ''redis_exporter'' (Some ''redis-a'')),
           Some (exampleExporter ''redis_exporter'' (Some ''redis-b''))]\<rparr>"

definition nilElement :: Integrations where
  "nilElement = noIntegrations\<lparr>ConsulExporterConfigs := [None]\<rparr>"

definition valueReceiverTypes :: "kind \<Rightarrow> go_type" where
  "valueReceiverTypes k =
     \<lparr>typeName = ''cadvisor.Config'', unmarshalYAML = Some ValueReceiver\<rparr>"

definition pointerReceiverTypes :: "kind \<Rightarrow> go_type" where
  "pointerReceiverTypes k =
     \<lparr>typeName = ''cadvisor.Config'', unmarshalYAML = Some PointerReceiver\<rparr>"

definition exampleDefaults :: "kind \<Rightarrow> v1_Config" where
  "exampleDefaults k =
     (exampleLegacyConfig ''cadvisor'' Inr)\<lparr>settings := [(''storage_duration'', ''2m'')]\<rparr>"

definition freshExporter :: Exporter where
  "freshExporter =
     \<lparr>Config = exampleLegacyConfig ''cadvisor'' Inr,
      Cmn = \<lparr>Autoscrape_cadence = None, InstanceKey = None\<rparr>\<rparr>"

definition decodeDocument :: "Exporter \<Rightarrow> go_error option \<times> Exporter" where
  "decodeDocument c =
     (None, c\<lparr>Config := (Config c)\<lparr>settings := (''docker_only'', ''true'') # settings (Config c)\<rparr>\<rparr>)"

definition failingResolver :: configWrapper where
  "failingResolver = exampleWrapper None noHostname"

definition failingHandler :: v1_Integration where
  "failingHandler = exampleIntegration\<lparr>MetricsHandler := (None, Some (ErrorString ''no registry''))\<rparr>"

section \<open>The error-masking run wrapper\<close>

text \<open>
  C1. The wrapper installed around a legacy \<^verbatim>\<open>Run\<close> is a case analysis on the error the
  legacy call returned and the state of the context when it returned: a nil error gives
  nil; an error that matches \<^verbatim>\<open>context.Canceled\<close> gives nil when the context is done and
  the error itself when the context is still active; any other error is returned
  unchanged. The wrapper returns when the legacy call returns, and not at all when the
  legacy call does not.
\<close>

theorem runFunc_case_analysis:
  "(v1Run ctx t0 = Some (t1, None) \<longrightarrow>
      newIntegrationFromV1_runFunc v1Run ctx t0 = Some (t1, None))
   \<and> (v1Run ctx t0 = Some (t1, Some e) \<and> errors_Is e Canceled \<and> ctx_Err ctx t1 \<noteq> None \<longrightarrow>
      newIntegrationFromV1_runFunc v1Run ctx t0 = Some (t1, None))
   \<and> (v1Run ctx t0 = Some (t1, Some e) \<and> errors_Is e Canceled \<and> ctx_Err ctx t1 = None \<longrightarrow>
      newIntegrationFromV1_runFunc v1Run ctx t0 = Some (t1, Some e))
   \<and> (v1Run ctx t0 = Some (t1, Some e) \<and> \<not> errors_Is e Canceled \<longrightarrow>
      newIntegrationFromV1_runFunc v1Run ctx t0 = Some (t1, Some e))
   \<and> (v1Run ctx t0 = None \<longrightarrow> newIntegrationFromV1_runFunc v1Run ctx t0 = None)"
  by (simp add: newIntegrationFromV1_runFunc_def)

theorem runFunc_case_analysis_witness:
  "newIntegrationFromV1_runFunc (\<lambda>ctx t. Some (t + 5, None)) (CanceledAt 3) 0 = Some (5, None)
   \<and> newIntegrationFromV1_runFunc (\<lambda>ctx t. Some (t + 5, Some (WrapError ''run: '' Canceled)))
        (CanceledAt 3) 0 = Some (5, None)
   \<and> newIntegrationFromV1_runFunc (\<lambda>ctx t. Some (t + 5, Some (WrapError ''run: '' Canceled)))
        (CanceledAt 9) 0 = Some (5, Some (WrapError ''run: '' Canceled))
   \<and> newIntegrationFromV1_runFunc (\<lambda>ctx t. Some (t + 5, Some (ErrorString ''boom'')))
        (CanceledAt 3) 0 = Some (5, Some (ErrorString ''boom''))"
  using
    runFunc_case_analysis [of "\<lambda>ctx t. Some (t + 5, None)" "CanceledAt 3" 0 5]
    runFunc_case_analysis [of "\<lambda>ctx t. Some (t + 5, Some (WrapError ''run: '' Canceled))"
      "CanceledAt 3" 0 5 "WrapError ''run: '' Canceled"]
    runFunc_case_analysis [of "\<lambda>ctx t. Some (t + 5, Some (WrapError ''run: '' Canceled))"
      "CanceledAt 9" 0 5 "WrapError ''run: '' Canceled"]
    runFunc_case_analysis [of "\<lambda>ctx t. Some (t + 5, Some (ErrorString ''boom''))"
      "CanceledAt 3" 0 5 "ErrorString ''boom''"]
  by simp

section \<open>The composition registry returns the flattened list\<close>

lemma appendEach_no_nil:
  "list_all (\<lambda>e. e \<noteq> None) es \<Longrightarrow>
     appendEach k es acc = Inr (acc @ contribution (k, Repeated es))"
proof (induction es arbitrary: acc)
  case Nil
  then show ?case by simp
next
  case (Cons x xs)
  then obtain i where "x = Some i" by auto
  with Cons show ?case by simp
qed

lemma appendIfSet_contribution:
  "appendIfSet k s acc = acc @ contribution (k, Singular s)"
  by (cases s) (simp_all add: appendIfSet_def)

lemma appendConfigs_append: "appendConfigs cs acc = acc @ cs"
  by (induction cs arbitrary: acc) simp_all

lemma andThen_Inr: "andThen (Inr a) f = f a"
  by (simp add: andThen_def)

lemma length_contribution: "length (contribution ks) = slotSize ks"
  by (induction ks rule: contribution.induct) simp_all

lemma kindOf_contribution:
  "map kindOf (contribution ks) = replicate (slotSize ks) (Some (fst ks))"
  by (induction ks rule: contribution.induct)
     (simp_all add: wrapped_def newConfigWrapper_def map_replicate_const comp_def)

lemma noNilElements_iff:
  "noNilElements v \<longleftrightarrow>
     list_all (\<lambda>e. e \<noteq> None) (ConsulExporterConfigs v)
   \<and> list_all (\<lambda>e. e \<noteq> None) (DnsmasqExporterConfigs v)
   \<and> list_all (\<lambda>e. e \<noteq> None) (ElasticsearchExporterConfigs v)
   \<and> list_all (\<lambda>e. e \<noteq> None) (GithubExporterConfigs v)
   \<and> list_all (\<lambda>e. e \<noteq> None) (KafkaExporterConfigs v)
   \<and> list_all (\<lambda>e. e \<noteq> None) (MemcachedExporterConfigs v)
   \<and> list_all (\<lambda>e. e \<noteq> None) (MongodbExporterConfigs v)
   \<and> list_all (\<lambda>e. e \<noteq> None) (MysqldExporterConfigs v)
   \<and> list_all (\<lambda>e. e \<noteq> None) (PostgresExporterConfigs v)
   \<and> list_all (\<lambda>e. e \<noteq> None) (RedisExporterConfigs v)"
  by (simp add: noNilElements_def slotsByPriority_def)

lemma ActiveConfigs_expected:
  assumes "noNilElements v"
  shows "ActiveConfigs v = Inr (expectedConfigs v)"
proof -
  note nn = assms [unfolded noNilElements_iff]
  have agent: "(case Agent v of None \<Rightarrow> [] | Some a \<Rightarrow> [] @ [AgentConfig a])
      = (case Agent v of None \<Rightarrow> [] | Some a \<Rightarrow> [AgentConfig a])"
    by (cases "Agent v") simp_all
  show ?thesis
    unfolding ActiveConfigs_def expectedConfigs_def slotsByPriority_def Let_def agent
      appendIfSet_contribution appendConfigs_append
    using nn by (simp add: appendEach_no_nil andThen_Inr del: contribution.simps)
qed

text \<open>
  C2, as the code has it. For every registry whose repeated slots hold no nil element,
  \<^verbatim>\<open>ActiveConfigs\<close> returns the agent's config if set, then the contributions of the
  wrapped kinds in the fixed priority order, then the test configs: a singular slot
  contributes one config if and only if it is set, a repeated slot one config for each
  element in the order of the list. The length of the result is the number of set
  singular slots plus the lengths of the repeated slots and of the test configs.
\<close>

theorem ActiveConfigs_flattens:
  assumes "noNilElements v"
  shows "ActiveConfigs v = Inr (expectedConfigs v)
    \<and> length (expectedConfigs v) =
        (if Agent v = None then 0 else 1) + sum_list (map slotSize (slotsByPriority v))
          + length (TestConfigs v)
    \<and> map fst (slotsByPriority v) =
        [K_Cadvisor, K_ConsulExporter, K_DnsmasqExporter, K_ElasticsearchExporter,
         K_GithubExporter, K_KafkaExporter, K_MemcachedExporter, K_MongodbExporter,
         K_MysqldExporter, K_NodeExporter, K_PostgresExporter, K_ProcessExporter,
         K_RedisExporter, K_StatsdExporter, K_WindowsExporter]
    \<and> map kindOf (concat (map contribution (slotsByPriority v))) =
        concat (map (\<lambda>ks. replicate (slotSize ks) (Some (fst ks))) (slotsByPriority v))"
proof (intro conjI)
  show "ActiveConfigs v = Inr (expectedConfigs v)"
    using assms by (rule ActiveConfigs_expected)
  show "length (expectedConfigs v) =
        (if Agent v = None then 0 else 1) + sum_list (map slotSize (slotsByPriority v))
          + length (TestConfigs v)"
    by (simp add: expectedConfigs_def length_concat comp_def length_contribution
        split: option.split)
  show "map fst (slotsByPriority v) =
        [K_Cadvisor, K_ConsulExporter, K_DnsmasqExporter, K_ElasticsearchExporter,
         K_GithubExporter, K_KafkaExporter, K_MemcachedExporter, K_MongodbExporter,
         K_MysqldExporter, K_NodeExporter, K_PostgresExporter, K_ProcessExporter,
         K_RedisExporter, K_StatsdExporter, K_WindowsExporter]"
    by (simp add: slotsByPriority_def)
  show "map kindOf (concat (map contribution (slotsByPriority v))) =
        concat (map (\<lambda>ks. replicate (slotSize ks) (Some (fst ks))) (slotsByPriority v))"
    by (simp add: map_concat comp_def kindOf_contribution)
qed

text \<open>
  One singular slot set and one repeated slot with two entries give exactly three
  configs, the singular kind first because it comes first in the priority order.
\<close>

theorem ActiveConfigs_flattens_witness:
  "noNilElements threeConfigs
   \<and> ActiveConfigs threeConfigs =
       Inr [wrapped K_NodeExporter (exampleExporter ''node_exporter'' None),
            wrapped K_RedisExporter (exampleExporter ''redis_exporter'' (Some ''redis-a'')),
            wrapped K_RedisExporter (exampleExporter ''redis_exporter'' (Some ''redis-b''))]
   \<and> length (expectedConfigs threeConfigs) = 3"
proof -
  have h: "noNilElements threeConfigs"
    by (simp add: noNilElements_iff threeConfigs_def noIntegrations_def)
  have e: "expectedConfigs threeConfigs =
       [wrapped K_NodeExporter (exampleExporter ''node_exporter'' None),
        wrapped K_RedisExporter (exampleExporter ''redis_exporter'' (Some ''redis-a'')),
        wrapped K_RedisExporter (exampleExporter ''redis_exporter'' (Some ''redis-b''))]"
    by (simp add: expectedConfigs_def slotsByPriority_def threeConfigs_def noIntegrations_def)
  show ?thesis
    using h ActiveConfigs_flattens [OF h] by (simp add: e)
qed

text \<open>
  C2 as stated, for every registry, fails: a repeated slot with a nil element makes
  \<^verbatim>\<open>ActiveConfigs\<close> panic where the claim has it contribute a config for that element.
\<close>

theorem ActiveConfigs_nil_element_counterexample:
  "length (ConsulExporterConfigs nilElement) = 1
   \<and> ActiveConfigs nilElement = Inl NilPointerDereference"
  by (simp add: nilElement_def noIntegrations_def ActiveConfigs_def appendIfSet_def andThen_def)

section \<open>Applying defaults\<close>

lemma MetricsConfig_ApplyDefaults_key:
  "MetricsConfig.InstanceKey (MetricsConfig_ApplyDefaults a mc) = MetricsConfig.InstanceKey mc"
  by (simp add: MetricsConfig_ApplyDefaults_def split: option.split)

lemma MetricsConfig_ApplyDefaults_set:
  "Autoscrape_cadence (MetricsConfig_ApplyDefaults a mc) \<noteq> None"
  by (simp add: MetricsConfig_ApplyDefaults_def split: option.split)

lemma MetricsConfig_ApplyDefaults_noop:
  "Autoscrape_cadence mc \<noteq> None \<Longrightarrow> MetricsConfig_ApplyDefaults a mc = mc"
  by (auto simp add: MetricsConfig_ApplyDefaults_def split: option.split)

lemma ApplyDefaults_cadence_set:
  "Autoscrape_cadence (cmn (snd (ApplyDefaults c g))) \<noteq> None"
  using MetricsConfig_ApplyDefaults_set [of "Autoscrape g" "cmn c"]
  by (cases "Identifier (c\<lparr>cmn := MetricsConfig_ApplyDefaults (Autoscrape g) (cmn c)\<rparr>) g")
     (simp_all add: ApplyDefaults_def Let_def)

lemma ApplyDefaults_funcs:
  "configInstanceFunc (snd (ApplyDefaults c g)) = configInstanceFunc c"
  "newInstanceFunc (snd (ApplyDefaults c g)) = newInstanceFunc c"
  "cfg (snd (ApplyDefaults c g)) = cfg c"
  by (simp_all add: ApplyDefaults_def Let_def split: sum.split)

lemma ApplyDefaults_key:
  "MetricsConfig.InstanceKey (cmn (snd (ApplyDefaults c g))) =
     (case MetricsConfig.InstanceKey (cmn c) of
        Some key \<Rightarrow> Some key
      | None \<Rightarrow> (case configInstanceFunc c (AgentIdentifier g) of
                   Inr ident \<Rightarrow> Some ident | Inl err \<Rightarrow> None))"
  by (cases "MetricsConfig.InstanceKey (cmn c)"; cases "configInstanceFunc c (AgentIdentifier g)")
     (simp_all add: ApplyDefaults_def Let_def Identifier_def MetricsConfig_ApplyDefaults_key)

lemma ApplyDefaults_cached_noop:
  assumes "MetricsConfig.InstanceKey (cmn c) = Some key" "Autoscrape_cadence (cmn c) \<noteq> None"
  shows "ApplyDefaults c g = (None, c)"
  using assms
  by (simp add: ApplyDefaults_def Let_def Identifier_def MetricsConfig_ApplyDefaults_noop)

lemma ApplyDefaults_failed_noop:
  assumes "MetricsConfig.InstanceKey (cmn c) = None" "Autoscrape_cadence (cmn c) \<noteq> None"
    "configInstanceFunc c (AgentIdentifier g) = Inl err"
  shows "ApplyDefaults c g = (None, c)"
  using assms
  by (simp add: ApplyDefaults_def Let_def Identifier_def MetricsConfig_ApplyDefaults_noop)

text \<open>
  C3. A second \<^verbatim>\<open>ApplyDefaults\<close> with the same global context returns nil and leaves the
  wrapper, and so its common settings and instance key, as the first call left it.
  Where the first call resolved or found a key, \<^verbatim>\<open>Identifier\<close> returns that cached key
  whatever the global context, and a second \<^verbatim>\<open>ApplyDefaults\<close> with any global context
  changes nothing.
\<close>

theorem ApplyDefaults_idempotent:
  "ApplyDefaults (snd (ApplyDefaults c g)) g = (None, snd (ApplyDefaults c g))
   \<and> (\<forall>key g2. MetricsConfig.InstanceKey (cmn (snd (ApplyDefaults c g))) = Some key \<longrightarrow>
         Identifier (snd (ApplyDefaults c g)) g2 = Inr key
       \<and> ApplyDefaults (snd (ApplyDefaults c g)) g2 = (None, snd (ApplyDefaults c g)))"
proof (intro conjI allI impI)
  let ?c1 = "snd (ApplyDefaults c g)"
  show "ApplyDefaults ?c1 g = (None, ?c1)"
  proof (cases "MetricsConfig.InstanceKey (cmn ?c1)")
    case (Some key)
    then show ?thesis
      by (rule ApplyDefaults_cached_noop) (rule ApplyDefaults_cadence_set)
  next
    case None
    then obtain err where "configInstanceFunc c (AgentIdentifier g) = Inl err"
      by (auto simp add: ApplyDefaults_key split: option.splits sum.splits)
    then have "configInstanceFunc ?c1 (AgentIdentifier g) = Inl err"
      by (simp add: ApplyDefaults_funcs)
    with None show ?thesis
      by (intro ApplyDefaults_failed_noop [where err = err] ApplyDefaults_cadence_set)
  qed
next
  fix key g2
  let ?c1 = "snd (ApplyDefaults c g)"
  assume k: "MetricsConfig.InstanceKey (cmn ?c1) = Some key"
  then show "Identifier ?c1 g2 = Inr key"
    by (simp add: Identifier_def)
  from k show "ApplyDefaults ?c1 g2 = (None, ?c1)"
    by (rule ApplyDefaults_cached_noop) (rule ApplyDefaults_cadence_set)
qed

theorem ApplyDefaults_idempotent_witness:
  "MetricsConfig.InstanceKey (cmn (snd (ApplyDefaults (exampleWrapper None Inr) exampleGlobals)))
     = Some ''agent-1''
   \<and> Identifier (snd (ApplyDefaults (exampleWrapper None Inr) exampleGlobals))
       (exampleGlobals\<lparr>AgentIdentifier := ''agent-2''\<rparr>) = Inr ''agent-1''
   \<and> MetricsConfig.InstanceKey (cmn (snd (ApplyDefaults
        (snd (ApplyDefaults (exampleWrapper None Inr) exampleGlobals))
        (exampleGlobals\<lparr>AgentIdentifier := ''agent-2''\<rparr>)))) = Some ''agent-1''"
proof -
  have h: "MetricsConfig.InstanceKey
      (cmn (snd (ApplyDefaults (exampleWrapper None Inr) exampleGlobals))) = Some ''agent-1''"
    by (simp add: ApplyDefaults_key exampleWrapper_def newConfigWrapper_def exampleGlobals_def)
  from ApplyDefaults_idempotent [of "exampleWrapper None Inr" exampleGlobals] h
  show ?thesis by simp
qed

text \<open>
  C4. An instance key that is set before \<^verbatim>\<open>ApplyDefaults\<close> is the instance key after it,
  for every global context.
\<close>

theorem ApplyDefaults_keeps_explicit_key:
  assumes "MetricsConfig.InstanceKey (cmn c) = Some key"
  shows "MetricsConfig.InstanceKey (cmn (snd (ApplyDefaults c g))) = Some key"
  using assms by (simp add: ApplyDefaults_key)

theorem ApplyDefaults_keeps_explicit_key_witness:
  "MetricsConfig.InstanceKey (cmn (exampleWrapper (Some ''explicit'') Inr)) = Some ''explicit''
   \<and> configInstanceFunc (exampleWrapper (Some ''explicit'') Inr)
        (AgentIdentifier exampleGlobals) = Inr ''agent-1''
   \<and> MetricsConfig.InstanceKey
        (cmn (snd (ApplyDefaults (exampleWrapper (Some ''explicit'') Inr) exampleGlobals)))
       = Some ''explicit''"
proof -
  have h: "MetricsConfig.InstanceKey (cmn (exampleWrapper (Some ''explicit'') Inr))
      = Some ''explicit''"
    by (simp add: exampleWrapper_def newConfigWrapper_def)
  show ?thesis
    using h ApplyDefaults_keeps_explicit_key [OF h, of exampleGlobals]
    by (simp add: exampleWrapper_def newConfigWrapper_def exampleGlobals_def)
qed

section \<open>Properties of the runtime integration\<close>

lemma appendTargets_map:
  "appendTargets scs ts =
     ts @ map (\<lambda>sc. \<lparr>MetricsPath = ScrapeConfig.MetricsPath sc,
                      Labels = [JobLabel \<mapsto> ''integrations/'' @ JobName sc]\<rparr>) scs"
  by (induction scs arbitrary: ts) simp_all

lemma newIntegrationFromV1_Some:
  assumes "newIntegrationFromV1 c logger g newInt = (Some i, err)"
  shows "\<exists>v1 ident h.
      newInt logger = Inr v1 \<and> Identifier c g = Inr ident \<and> MetricsHandler v1 = (h, None)
    \<and> err = None
    \<and> i = \<lparr>integrationName = configWrapper_Name c, instanceID = ident, common = cmn c,
           globals = g,
           handler = Some (case h of None \<Rightarrow> NotFoundHandler | Some h0 \<Rightarrow> h0),
           targets = Some (appendTargets
             (case ScrapeConfigs v1 of None \<Rightarrow> [] | Some scs \<Rightarrow> scs) []),
           runFunc = newIntegrationFromV1_runFunc (Run v1)\<rparr>"
  using assms
  by (auto simp add: newIntegrationFromV1_def Let_def split: sum.splits prod.splits option.splits)

lemma example_Identifier:
  "Identifier (exampleWrapper None Inr) exampleGlobals = Inr ''agent-1''"
  by (simp add: Identifier_def exampleWrapper_def newConfigWrapper_def exampleGlobals_def)

lemma example_newIntegration:
  "\<exists>i. newIntegrationFromV1 (exampleWrapper None Inr) (Logger ''test'') exampleGlobals
          (\<lambda>l. Inr exampleIntegration) = (Some i, None)"
  by (simp add: newIntegrationFromV1_def example_Identifier exampleIntegration_def Let_def)

text \<open>
  C5. Where the legacy capability returns the scrape configs \<open>scs\<close>, the integration
  built from it has one target for each, in the same order; each target has the metrics
  path of its scrape config and a label set that holds the job label alone, whose value
  is \<^verbatim>\<open>integrations/\<close> followed by the job name of the scrape config.
\<close>

theorem targets_job_label:
  assumes "newInt logger = Inr v1"
    and "ScrapeConfigs v1 = Some scs"
    and "newIntegrationFromV1 c logger g newInt = (Some i, err)"
  shows "\<exists>ts. targets i = Some ts \<and> length ts = length scs
    \<and> (\<forall>n < length scs.
          handlerTarget.MetricsPath (ts ! n) = ScrapeConfig.MetricsPath (scs ! n)
        \<and> Labels (ts ! n) JobLabel = Some (''integrations/'' @ JobName (scs ! n))
        \<and> dom (Labels (ts ! n)) = {JobLabel})"
proof -
  from newIntegrationFromV1_Some [OF assms(3)] assms(1,2)
  have "targets i = Some (appendTargets scs [])"
    by auto
  then show ?thesis
    by (simp add: appendTargets_map)
qed

theorem targets_job_label_witness:
  "\<exists>i ts. newIntegrationFromV1 (exampleWrapper None Inr) (Logger ''test'') exampleGlobals
          (\<lambda>l. Inr exampleIntegration) = (Some i, None)
     \<and> targets i = Some ts \<and> length ts = 1
     \<and> handlerTarget.MetricsPath (ts ! 0) = ''/metrics''
     \<and> Labels (ts ! 0) ''job'' = Some ''integrations/node_exporter''"
proof -
  have h1: "(\<lambda>l. Inr exampleIntegration) (Logger ''test'') = Inr exampleIntegration"
    by simp
  have h2: "ScrapeConfigs exampleIntegration
      = Some [\<lparr>JobName = ''node_exporter'', MetricsPath = ''/metrics''\<rparr>]"
    by (simp add: exampleIntegration_def)
  obtain i where h3: "newIntegrationFromV1 (exampleWrapper None Inr) (Logger ''test'')
      exampleGlobals (\<lambda>l. Inr exampleIntegration) = (Some i, None)"
    using example_newIntegration by blast
  from targets_job_label [OF h1 h2 h3] obtain ts where
    "targets i = Some ts" "length ts = 1"
    "handlerTarget.MetricsPath (ts ! 0) = ''/metrics''"
    "Labels (ts ! 0) JobLabel = Some ''integrations/node_exporter''"
    by auto
  with h3 show ?thesis
    by (auto simp add: JobLabel_def)
qed

text \<open>
  C7, as the code has it. For every legacy capability whose \<^verbatim>\<open>MetricsHandler()\<close> returns
  a nil handler with a nil error and every config whose identifier resolution succeeds,
  the integration is built with no error and its handler is the not-found handler,
  which answers every request with status 404.
\<close>

theorem nil_handler_is_not_found:
  assumes "newInt logger = Inr v1"
    and "Identifier c g = Inr ident"
    and "MetricsHandler v1 = (None, None)"
  shows "\<exists>i. newIntegrationFromV1 c logger g newInt = (Some i, None)
    \<and> handler i = Some NotFoundHandler
    \<and> (\<forall>req. ServeHTTP NotFoundHandler req = 404)"
  using assms by (simp add: newIntegrationFromV1_def Let_def NotFoundHandler_def)

theorem nil_handler_is_not_found_witness:
  "MetricsHandler exampleIntegration = (None, None)
   \<and> (\<exists>i. newIntegrationFromV1 (exampleWrapper None Inr) (Logger ''test'') exampleGlobals
          (\<lambda>l. Inr exampleIntegration) = (Some i, None)
        \<and> handler i = Some NotFoundHandler)
   \<and> ServeHTTP NotFoundHandler ''/metrics'' = 404"
proof -
  have h1: "(\<lambda>l. Inr exampleIntegration) (Logger ''test'') = Inr exampleIntegration"
    by simp
  have h3: "MetricsHandler exampleIntegration = (None, None)"
    by (simp add: exampleIntegration_def)
  from nil_handler_is_not_found [OF h1 example_Identifier h3] h3
  show ?thesis by blast
qed

text \<open>
  C7 as stated, for every legacy capability with a nil handler and a nil error, fails:
  the identifier is resolved before the handler is asked for, so with a config whose
  identifier function fails \<^verbatim>\<open>NewIntegration\<close> returns a nil integration and that error,
  whatever the handler.
\<close>

theorem nil_handler_failing_identifier_counterexample:
  "newInstanceFunc failingResolver (Logger ''test'') = Inr exampleIntegration
   \<and> MetricsHandler exampleIntegration = (None, None)
   \<and> configWrapper_NewIntegration failingResolver (Logger ''test'') exampleGlobals
       = (None, Some (ErrorString ''cannot determine hostname''))"
  by (simp add: configWrapper_NewIntegration_def newIntegrationFromV1_def Identifier_def
      failingResolver_def exampleWrapper_def newConfigWrapper_def noHostname_def
      exampleIntegration_def)

text \<open>
  C8. \<^verbatim>\<open>newIntegrationFromV1\<close> is all or nothing. A failing constructor or a failing
  identifier resolution gives a nil integration and that error; a failing
  \<^verbatim>\<open>MetricsHandler()\<close> gives a nil integration and that error wrapped; a nil integration
  never comes with a nil error. An integration that is returned comes with a nil error
  and has every field set: the name, the resolved instance id, the common settings, the
  global context, a handler that is not nil, a target slice that is not nil, and the run
  wrapper around the legacy \<^verbatim>\<open>Run\<close>.
\<close>

theorem newIntegrationFromV1_all_or_nothing:
  "(newInt logger = Inl e \<longrightarrow> newIntegrationFromV1 c logger g newInt = (None, Some e))
   \<and> (newInt logger = Inr v1 \<and> Identifier c g = Inl e \<longrightarrow>
        newIntegrationFromV1 c logger g newInt = (None, Some e))
   \<and> (newInt logger = Inr v1 \<and> Identifier c g = Inr ident \<and> snd (MetricsHandler v1) = Some e \<longrightarrow>
        newIntegrationFromV1 c logger g newInt
          = (None, Some (WrapError ''generating http handler: '' e)))
   \<and> (fst (newIntegrationFromV1 c logger g newInt) = None \<longrightarrow>
        snd (newIntegrationFromV1 c logger g newInt) \<noteq> None)
   \<and> (newIntegrationFromV1 c logger g newInt = (Some i, err) \<longrightarrow>
        err = None
      \<and> integrationName i = configWrapper_Name c
      \<and> common i = cmn c
      \<and> globals i = g
      \<and> Identifier c g = Inr (instanceID i)
      \<and> handler i \<noteq> None
      \<and> targets i \<noteq> None
      \<and> (\<exists>v. newInt logger = Inr v \<and> runFunc i = newIntegrationFromV1_runFunc (Run v)))"
proof (intro conjI impI)
  show "newIntegrationFromV1 c logger g newInt = (None, Some e)" if "newInt logger = Inl e"
    using that by (simp add: newIntegrationFromV1_def)
  show "newIntegrationFromV1 c logger g newInt = (None, Some e)"
    if "newInt logger = Inr v1 \<and> Identifier c g = Inl e"
    using that by (simp add: newIntegrationFromV1_def)
  show "newIntegrationFromV1 c logger g newInt
          = (None, Some (WrapError ''generating http handler: '' e))"
    if "newInt logger = Inr v1 \<and> Identifier c g = Inr ident \<and> snd (MetricsHandler v1) = Some e"
    using that by (cases "MetricsHandler v1") (simp add: newIntegrationFromV1_def)
  show "snd (newIntegrationFromV1 c logger g newInt) \<noteq> None"
    if "fst (newIntegrationFromV1 c logger g newInt) = None"
    using that
    by (auto simp add: newIntegrationFromV1_def Let_def
        split: sum.splits prod.splits option.splits)
next
  assume a: "newIntegrationFromV1 c logger g newInt = (Some i, err)"
  from newIntegrationFromV1_Some [OF a]
  obtain v ident h where
    v: "newInt logger = Inr v" and id: "Identifier c g = Inr ident" and e: "err = None"
    and i: "i = \<lparr>integrationName = configWrapper_Name c, instanceID = ident, common = cmn c,
           globals = g,
           handler = Some (case h of None \<Rightarrow> NotFoundHandler | Some h0 \<Rightarrow> h0),
           targets = Some (appendTargets
             (case ScrapeConfigs v of None \<Rightarrow> [] | Some scs \<Rightarrow> scs) []),
           runFunc = newIntegrationFromV1_runFunc (Run v)\<rparr>"
    by blast
  show "err = None" by (rule e)
  show "integrationName i = configWrapper_Name c" by (simp add: i)
  show "common i = cmn c" by (simp add: i)
  show "globals i = g" by (simp add: i)
  show "Identifier c g = Inr (instanceID i)" by (simp add: i id)
  show "handler i \<noteq> None" by (simp add: i)
  show "targets i \<noteq> None" by (simp add: i)
  show "\<exists>v. newInt logger = Inr v \<and> runFunc i = newIntegrationFromV1_runFunc (Run v)"
    using v by (simp add: i)
qed

theorem newIntegrationFromV1_all_or_nothing_witness:
  "newIntegrationFromV1 (exampleWrapper None Inr) (Logger ''test'') exampleGlobals
       (\<lambda>l. Inl (ErrorString ''no such device''))
     = (None, Some (ErrorString ''no such device''))
   \<and> newIntegrationFromV1 (exampleWrapper None noHostname) (Logger ''test'') exampleGlobals
       (\<lambda>l. Inr exampleIntegration)
     = (None, Some (ErrorString ''cannot determine hostname''))
   \<and> newIntegrationFromV1 (exampleWrapper None Inr) (Logger ''test'') exampleGlobals
       (\<lambda>l. Inr failingHandler)
     = (None, Some (WrapError ''generating http handler: '' (ErrorString ''no registry'')))
   \<and> (\<exists>i. newIntegrationFromV1 (exampleWrapper None Inr) (Logger ''test'') exampleGlobals
          (\<lambda>l. Inr exampleIntegration) = (Some i, None)
        \<and> instanceID i = ''agent-1'' \<and> handler i \<noteq> None \<and> targets i \<noteq> None)"
proof -
  obtain i where ok: "newIntegrationFromV1 (exampleWrapper None Inr) (Logger ''test'')
      exampleGlobals (\<lambda>l. Inr exampleIntegration) = (Some i, None)"
    using example_newIntegration by blast
  have id2: "Identifier (exampleWrapper None noHostname) exampleGlobals
      = Inl (ErrorString ''cannot determine hostname'')"
    by (simp add: Identifier_def exampleWrapper_def newConfigWrapper_def noHostname_def)
  have h: "snd (MetricsHandler failingHandler) = Some (ErrorString ''no registry'')"
    by (simp add: failingHandler_def)
  from
    newIntegrationFromV1_all_or_nothing [of "\<lambda>l. Inl (ErrorString ''no such device'')"
      "Logger ''test'' " "ErrorString ''no such device''"
      "exampleWrapper None Inr" exampleGlobals]
    newIntegrationFromV1_all_or_nothing [of "\<lambda>l. Inr exampleIntegration"
      "Logger ''test'' " "ErrorString ''cannot determine hostname''"
      "exampleWrapper None noHostname" exampleGlobals exampleIntegration]
    newIntegrationFromV1_all_or_nothing [of "\<lambda>l. Inr failingHandler"
      "Logger ''test'' " "ErrorString ''no registry''"
      "exampleWrapper None Inr" exampleGlobals failingHandler "''agent-1''"]
    newIntegrationFromV1_all_or_nothing [of "\<lambda>l. Inr exampleIntegration"
      "Logger ''test'' " _ "exampleWrapper None Inr" exampleGlobals _ _ i None]
    id2 h example_Identifier ok
  show ?thesis by simp
qed

section \<open>Failures that applying defaults drops\<close>

text \<open>
  C9. \<^verbatim>\<open>ApplyDefaults\<close> returns nil for every wrapper and global context. Where no key is
  set and the identifier function fails, the key stays unset, and the failure shows
  only later: \<^verbatim>\<open>Identifier\<close> returns it, and so does \<^verbatim>\<open>NewIntegration\<close> once the legacy
  constructor has succeeded.
\<close>

theorem ApplyDefaults_never_fails:
  "fst (ApplyDefaults c g) = None
   \<and> (MetricsConfig.InstanceKey (cmn c) = None
        \<and> configInstanceFunc c (AgentIdentifier g) = Inl e \<longrightarrow>
        MetricsConfig.InstanceKey (cmn (snd (ApplyDefaults c g))) = None
      \<and> Identifier (snd (ApplyDefaults c g)) g = Inl e
      \<and> (newInstanceFunc c logger = Inr v1 \<longrightarrow>
           configWrapper_NewIntegration (snd (ApplyDefaults c g)) logger g = (None, Some e)))"
proof (intro conjI impI)
  show "fst (ApplyDefaults c g) = None"
    by (simp add: ApplyDefaults_def Let_def split: sum.split)
next
  assume a: "MetricsConfig.InstanceKey (cmn c) = None
        \<and> configInstanceFunc c (AgentIdentifier g) = Inl e"
  then show k: "MetricsConfig.InstanceKey (cmn (snd (ApplyDefaults c g))) = None"
    by (simp add: ApplyDefaults_key)
  with a show id: "Identifier (snd (ApplyDefaults c g)) g = Inl e"
    by (simp add: Identifier_def ApplyDefaults_funcs)
  show "configWrapper_NewIntegration (snd (ApplyDefaults c g)) logger g = (None, Some e)"
    if "newInstanceFunc c logger = Inr v1"
    using that id
    by (simp add: configWrapper_NewIntegration_def newIntegrationFromV1_def ApplyDefaults_funcs)
qed

theorem ApplyDefaults_never_fails_witness:
  "MetricsConfig.InstanceKey (cmn (exampleWrapper None noHostname)) = None
   \<and> fst (ApplyDefaults (exampleWrapper None noHostname) exampleGlobals) = None
   \<and> MetricsConfig.InstanceKey
        (cmn (snd (ApplyDefaults (exampleWrapper None noHostname) exampleGlobals))) = None
   \<and> Identifier (snd (ApplyDefaults (exampleWrapper None noHostname) exampleGlobals))
        exampleGlobals = Inl (ErrorString ''cannot determine hostname'')
   \<and> configWrapper_NewIntegration
        (snd (ApplyDefaults (exampleWrapper None noHostname) exampleGlobals))
        (Logger ''test'') exampleGlobals
       = (None, Some (ErrorString ''cannot determine hostname''))"
proof -
  have h1: "MetricsConfig.InstanceKey (cmn (exampleWrapper None noHostname)) = None"
    by (simp add: exampleWrapper_def newConfigWrapper_def)
  have h2: "configInstanceFunc (exampleWrapper None noHostname) (AgentIdentifier exampleGlobals)
      = Inl (ErrorString ''cannot determine hostname'')"
    by (simp add: exampleWrapper_def newConfigWrapper_def noHostname_def)
  have h3: "newInstanceFunc (exampleWrapper None noHostname) (Logger ''test'')
      = Inr exampleIntegration"
    by (simp add: exampleWrapper_def newConfigWrapper_def)
  from ApplyDefaults_never_fails [of "exampleWrapper None noHostname" exampleGlobals
      "ErrorString ''cannot determine hostname''" "Logger ''test''" exampleIntegration]
    h1 h2 h3
  show ?thesis by simp
qed

section \<open>The custom-unmarshal guard at load time\<close>

text \<open>
  A legacy type whose \<^verbatim>\<open>UnmarshalYAML\<close> has a value receiver is rejected: the error names
  the type, the decoder's callback is not called, and the common settings stay as they
  were.
\<close>

lemma UnmarshalYAML_value_receiver:
  assumes "unmarshalYAML (legacyType k) = Some ValueReceiver"
  shows "UnmarshalYAML legacyType DefaultConfig k unmarshal c =
      (Some (ErrorString (typeName (legacyType k) @ '' cannot implement custom unmarshaler'')),
       if assignsDefaultConfig k then c\<lparr>Config := DefaultConfig k\<rparr> else c)"
  using assms by (simp add: UnmarshalYAML_def implementsMarshaller_def Let_def)

text \<open>
  Any other legacy type passes the guard, also one whose \<^verbatim>\<open>UnmarshalYAML\<close> has a pointer
  receiver: the call is the decoder's callback on the receiver.
\<close>

lemma UnmarshalYAML_not_value_receiver:
  assumes "unmarshalYAML (legacyType k) \<noteq> Some ValueReceiver"
  shows "UnmarshalYAML legacyType DefaultConfig k unmarshal c =
      unmarshal (if assignsDefaultConfig k then c\<lparr>Config := DefaultConfig k\<rparr> else c)"
  using assms by (simp add: UnmarshalYAML_def implementsMarshaller_def Let_def)

text \<open>
  The check comes after the assignment of \<^verbatim>\<open>DefaultConfig\<close>: for \<^verbatim>\<open>Cadvisor\<close> the call that
  is rejected has already replaced the fresh receiver's legacy config by the default.
\<close>

lemma UnmarshalYAML_default_assigned_first:
  "fst (UnmarshalYAML valueReceiverTypes exampleDefaults K_Cadvisor decodeDocument freshExporter)
       = Some (ErrorString ''cadvisor.Config cannot implement custom unmarshaler'')
   \<and> settings (Config freshExporter) = []
   \<and> settings (Config (snd (UnmarshalYAML valueReceiverTypes exampleDefaults K_Cadvisor
        decodeDocument freshExporter))) = [(''storage_duration'', ''2m'')]"
  by (simp add: UnmarshalYAML_def implementsMarshaller_def valueReceiverTypes_def
      exampleDefaults_def freshExporter_def exampleLegacyConfig_def)

text \<open>
  C6 says that unmarshalling a wrapped exporter config whose legacy config type
  implements a custom YAML unmarshaler fails with an error naming the type, before any
  defaulting. The code does not do so for a legacy type that declares \<^verbatim>\<open>UnmarshalYAML\<close>
  with a pointer receiver: for a \<^verbatim>\<open>Cadvisor\<close> whose \<^verbatim>\<open>cadvisor.Config\<close> declares
  \<^verbatim>\<open>func (c *Config) UnmarshalYAML\<close>, the guard returns nil, and \<^verbatim>\<open>UnmarshalYAML\<close> of the
  wrapper returns nil with the receiver defaulted and decoded.
\<close>

theorem UnmarshalYAML_pointer_receiver_accepted:
  "unmarshalYAML (pointerReceiverTypes K_Cadvisor) = Some PointerReceiver
   \<and> implementsMarshaller (pointerReceiverTypes K_Cadvisor) = None
   \<and> fst (UnmarshalYAML pointerReceiverTypes exampleDefaults K_Cadvisor decodeDocument
        freshExporter) = None
   \<and> settings (Config (snd (UnmarshalYAML pointerReceiverTypes exampleDefaults K_Cadvisor
        decodeDocument freshExporter)))
       = [(''docker_only'', ''true''), (''storage_duration'', ''2m'')]"
  by (simp add: UnmarshalYAML_def implementsMarshaller_def pointerReceiverTypes_def
      exampleDefaults_def freshExporter_def exampleLegacyConfig_def decodeDocument_def)

section \<open>The windows\_exporter integration under the run wrapper\<close>

text \<open>
  C10. On a context that is never done the \<^verbatim>\<open>Run\<close> of the windows\_exporter integration
  never returns. On a context canceled at instant \<open>d\<close> it returns once the context is
  canceled, with the error \<^verbatim>\<open>context.Canceled\<close>, and the same \<^verbatim>\<open>Run\<close> under the run wrapper
  returns nil at that instant.
\<close>

theorem windows_exporter_Run_masked:
  "windows_exporter_Run NeverDone t0 = None
   \<and> windows_exporter_Run (CanceledAt d) t0 = Some (max t0 d, Some Canceled)
   \<and> newIntegrationFromV1_runFunc windows_exporter_Run (CanceledAt d) t0
       = Some (max t0 d, None)"
  by (simp add: windows_exporter_Run_def newIntegrationFromV1_runFunc_def)

text \<open>
  A context that ends by its deadline is outside C10: the integration then returns
  \<^verbatim>\<open>context.DeadlineExceeded\<close>, which the wrapper passes on.
\<close>

lemma windows_exporter_Run_expired:
  "newIntegrationFromV1_runFunc windows_exporter_Run (ExpiredAt d) t0
     = Some (max t0 d, Some DeadlineExceeded)"
  by (simp add: windows_exporter_Run_def newIntegrationFromV1_runFunc_def)

end
